theory Spec2Isabelle
  imports Main
begin

section \<open>Strings\<close>

text \<open>
  A string is a list of characters. A \<^typ>\<open>char\<close> has 256 values, read here as the code
  points U+0000 to U+00FF; text with other code points is outside this model. The
  character classes below are the ones Python 3 and JavaScript use on that range.
\<close>

definition code_point :: "char \<Rightarrow> nat" where
  "code_point c = of_char c"

definition ascii_alpha :: "char \<Rightarrow> bool" where
  \<comment> \<open>\<open>c.isascii() and c.isalpha()\<close>, also the class \<open>[A-Za-z]\<close>\<close>
  "ascii_alpha c = (let n = code_point c in (65 \<le> n \<and> n \<le> 90) \<or> (97 \<le> n \<and> n \<le> 122))"

definition ascii_digit :: "char \<Rightarrow> bool" where
  "ascii_digit c = (let n = code_point c in 48 \<le> n \<and> n \<le> 57)"

definition ascii_lower_char :: "char \<Rightarrow> char" where
  \<comment> \<open>case folding of a JavaScript regular expression with flag \<open>i\<close> (no flag \<open>u\<close>) on ASCII letters\<close>
  "ascii_lower_char c = (let n = code_point c in if 65 \<le> n \<and> n \<le> 90 then char_of (n + 32) else c)"

definition py_lower_char :: "char \<Rightarrow> char" where
  \<comment> \<open>\<open>str.lower\<close> on one character below U+0100\<close>
  "py_lower_char c =
     (let n = code_point c
      in if (65 \<le> n \<and> n \<le> 90) \<or> (192 \<le> n \<and> n \<le> 222 \<and> n \<noteq> 215) then char_of (n + 32) else c)"

definition py_lower :: "string \<Rightarrow> string" where
  "py_lower s = map py_lower_char s"

definition py_space :: "char \<Rightarrow> bool" where
  \<comment> \<open>\<open>str.isspace\<close>: what \<open>str.strip()\<close> removes\<close>
  "py_space c = (let n = code_point c in (9 \<le> n \<and> n \<le> 13) \<or> (28 \<le> n \<and> n \<le> 32) \<or> n = 133 \<or> n = 160)"

definition js_space :: "char \<Rightarrow> bool" where
  \<comment> \<open>WhiteSpace and LineTerminator of ECMAScript: what \<open>String.prototype.trim\<close> removes\<close>
  "js_space c = (let n = code_point c in (9 \<le> n \<and> n \<le> 13) \<or> n = 32 \<or> n = 160)"

definition c0_or_space :: "char \<Rightarrow> bool" where
  \<comment> \<open>\<open>_WHATWG_C0_CONTROL_OR_SPACE\<close>\<close>
  "c0_or_space c = (code_point c \<le> 32)"

definition unsafe_url_byte :: "char \<Rightarrow> bool" where
  \<comment> \<open>\<open>_UNSAFE_URL_BYTES_TO_REMOVE\<close>: tab, carriage return, line feed\<close>
  "unsafe_url_byte c = (let n = code_point c in n = 9 \<or> n = 13 \<or> n = 10)"

definition strip_with :: "(char \<Rightarrow> bool) \<Rightarrow> string \<Rightarrow> string" where
  "strip_with p s = rev (dropWhile p (rev (dropWhile p s)))"

definition py_strip :: "string \<Rightarrow> string" where
  "py_strip s = strip_with py_space s"

definition js_trim :: "string \<Rightarrow> string" where
  "js_trim s = strip_with js_space s"

definition startswith :: "string \<Rightarrow> string \<Rightarrow> bool" where
  "startswith s p = (take (length p) s = p)"

definition endswith :: "string \<Rightarrow> string \<Rightarrow> bool" where
  "endswith s p = (length p \<le> length s \<and> drop (length s - length p) s = p)"

fun contains :: "string \<Rightarrow> string \<Rightarrow> bool" where
  \<comment> \<open>\<open>contains s p\<close>: \<open>p\<close> occurs in \<open>s\<close> as a contiguous substring\<close>
  "contains [] p = (p = [])"
| "contains (c # cs) p = (startswith (c # cs) p \<or> contains cs p)"

definition py_find :: "char \<Rightarrow> nat \<Rightarrow> string \<Rightarrow> nat option" where
  \<comment> \<open>\<open>s.find(c, start)\<close>, with \<open>None\<close> for \<open>-1\<close>\<close>
  "py_find c start s =
     (let t = drop start s
      in if c \<in> set t then Some (start + length (takeWhile (\<lambda>x. x \<noteq> c) t)) else None)"

definition py_rfind :: "char \<Rightarrow> string \<Rightarrow> nat option" where
  \<comment> \<open>\<open>s.rfind(c)\<close>, with \<open>None\<close> for \<open>-1\<close>\<close>
  "py_rfind c s =
     (if c \<in> set s then Some (length s - 1 - length (takeWhile (\<lambda>x. x \<noteq> c) (rev s))) else None)"

definition split_once :: "char \<Rightarrow> string \<Rightarrow> string \<times> string" where
  \<comment> \<open>\<open>s.split(c, 1)\<close> for a string that contains \<open>c\<close>\<close>
  "split_once c s = (takeWhile (\<lambda>x. x \<noteq> c) s, drop 1 (dropWhile (\<lambda>x. x \<noteq> c) s))"

definition py_split :: "char \<Rightarrow> string \<Rightarrow> string list" where
  \<comment> \<open>\<open>s.split(c)\<close>: always at least one piece\<close>
  "py_split c s = foldr (\<lambda>x acc. if x = c then [] # acc else (x # hd acc) # tl acc) s [[]]"

fun py_join :: "string \<Rightarrow> string list \<Rightarrow> string" where
  "py_join sep [] = []"
| "py_join sep [x] = x"
| "py_join sep (x # y # ys) = x @ sep @ py_join sep (y # ys)"

section \<open>The library functions of \<open>urllib.parse\<close> that the engine calls\<close>

text \<open>
  \<open>urljoin\<close>, \<open>urldefrag\<close> and \<open>urlparse\<close> follow CPython 3.11 (\<open>Lib/urllib/parse.py\<close>),
  on \<open>str\<close> arguments and with \<open>allow_fragments\<close> true, as the engine calls them.
  \<open>_check_bracketed_host\<close> validates an IPv6 or IPvFuture literal through the
  \<open>ipaddress\<close> module; it is the parameter \<open>chk\<close> (true when the check returns without
  raising). \<open>_checknetloc\<close> raises only when NFKC normalisation of the host yields one
  of \<open>/?#@:\<close>, which no character below U+0100 does, so it has no branch here.
\<close>

datatype error = ValueError | AssertionError | PlaywrightError

record SplitResult =
  sr_scheme :: string
  sr_netloc :: string
  sr_path :: string
  sr_query :: string
  sr_fragment :: string

record ParseResult =
  scheme :: string
  netloc :: string
  path :: string
  params :: string
  query :: string
  fragment :: string

definition uses_relative :: "string list" where
  "uses_relative = ['''', ''ftp'', ''http'', ''gopher'', ''nntp'', ''imap'',
     ''wais'', ''file'', ''https'', ''shttp'', ''mms'',
     ''prospero'', ''rtsp'', ''rtsps'', ''rtspu'', ''sftp'',
     ''svn'', ''svn+ssh'', ''ws'', ''wss'']"

definition uses_netloc :: "string list" where
  "uses_netloc = ['''', ''ftp'', ''http'', ''gopher'', ''nntp'', ''telnet'',
     ''imap'', ''wais'', ''file'', ''mms'', ''https'', ''shttp'',
     ''snews'', ''prospero'', ''rtsp'', ''rtsps'', ''rtspu'', ''rsync'',
     ''svn'', ''svn+ssh'', ''sftp'', ''nfs'', ''git'', ''git+ssh'',
     ''ws'', ''wss'']"

definition uses_params :: "string list" where
  "uses_params = ['''', ''ftp'', ''hdl'', ''prospero'', ''http'', ''imap'',
     ''https'', ''shttp'', ''rtsp'', ''rtsps'', ''rtspu'', ''sip'',
     ''sips'', ''mms'', ''sftp'', ''tel'']"

definition scheme_char :: "char \<Rightarrow> bool" where
  \<comment> \<open>membership in \<open>scheme_chars\<close>\<close>
  "scheme_char c = (ascii_alpha c \<or> ascii_digit c \<or> c = CHR ''+'' \<or> c = CHR ''-'' \<or> c = CHR ''.'')"

definition netloc_delim :: "char \<Rightarrow> bool" where
  "netloc_delim c = (c = CHR ''/'' \<or> c = CHR ''?'' \<or> c = CHR ''#'')"

definition splitnetloc :: "string \<Rightarrow> nat \<Rightarrow> string \<times> string" where
  \<comment> \<open>\<open>_splitnetloc(url, start)\<close>: the domain ends at the earliest of \<open>/\<close>, \<open>?\<close>, \<open>#\<close>\<close>
  "splitnetloc url start =
     (let t = drop start url
      in (takeWhile (\<lambda>c. \<not> netloc_delim c) t, dropWhile (\<lambda>c. \<not> netloc_delim c) t))"

definition bracketed_host :: "string \<Rightarrow> string" where
  \<comment> \<open>\<open>netloc.partition('[')[2].partition(']')[0]\<close>\<close>
  "bracketed_host nl =
     takeWhile (\<lambda>c. c \<noteq> CHR '']'') (drop 1 (dropWhile (\<lambda>c. c \<noteq> CHR ''['') nl))"

definition split_tail :: "string \<Rightarrow> string \<Rightarrow> string \<Rightarrow> SplitResult" where
  \<comment> \<open>the end of \<open>urlsplit\<close>: the fragment is cut at the first \<open>#\<close>, then the query at the first \<open>?\<close>\<close>
  "split_tail sch nl url =
     (let (url1, frag) = (if CHR ''#'' \<in> set url then split_once CHR ''#'' url else (url, ''''));
          (url2, qry) = (if CHR ''?'' \<in> set url1 then split_once CHR ''?'' url1 else (url1, ''''))
      in \<lparr>sr_scheme = sch, sr_netloc = nl, sr_path = url2, sr_query = qry, sr_fragment = frag\<rparr>)"

definition urlsplit :: "(string \<Rightarrow> bool) \<Rightarrow> string \<Rightarrow> string \<Rightarrow> error + SplitResult" where
  "urlsplit chk url0 scheme0 =
     (let url1 = filter (\<lambda>c. \<not> unsafe_url_byte c) (dropWhile c0_or_space url0);
          scheme1 = filter (\<lambda>c. \<not> unsafe_url_byte c) (strip_with c0_or_space scheme0);
          (scheme2, url2) =
            (case py_find CHR '':'' 0 url1 of
               None \<Rightarrow> (scheme1, url1)
             | Some i \<Rightarrow>
                 if 0 < i \<and> ascii_alpha (hd url1) \<and> list_all scheme_char (take i url1)
                 then (py_lower (take i url1), drop (i + 1) url1)
                 else (scheme1, url1))
      in if take 2 url2 = ''//'' then
           (let (nl, rest) = splitnetloc url2 2
            in if (CHR ''['' \<in> set nl \<and> CHR '']'' \<notin> set nl) \<or> (CHR '']'' \<in> set nl \<and> CHR ''['' \<notin> set nl)
               then Inl ValueError
               else if CHR ''['' \<in> set nl \<and> CHR '']'' \<in> set nl \<and> \<not> chk (bracketed_host nl)
               then Inl ValueError
               else Inr (split_tail scheme2 nl rest))
         else Inr (split_tail scheme2 '''' url2))"

definition splitparams :: "string \<Rightarrow> string \<times> string" where
  \<comment> \<open>\<open>_splitparams\<close>; a \<open>find\<close> that fails gives index \<open>-1\<close> in its second branch\<close>
  "splitparams url =
     (if CHR ''/'' \<in> set url then
        (case py_find CHR '';'' (the (py_rfind CHR ''/'' url)) url of
           None \<Rightarrow> (url, '''')
         | Some i \<Rightarrow> (take i url, drop (i + 1) url))
      else
        (case py_find CHR '';'' 0 url of
           None \<Rightarrow> (butlast url, url)
         | Some i \<Rightarrow> (take i url, drop (i + 1) url)))"

definition urlparse :: "(string \<Rightarrow> bool) \<Rightarrow> string \<Rightarrow> string \<Rightarrow> error + ParseResult" where
  "urlparse chk url sch =
     (case urlsplit chk url sch of
        Inl e \<Rightarrow> Inl e
      | Inr r \<Rightarrow>
          (let (url1, prm) =
                 (if sr_scheme r \<in> set uses_params \<and> CHR '';'' \<in> set (sr_path r)
                  then splitparams (sr_path r) else (sr_path r, ''''))
           in Inr \<lparr>scheme = sr_scheme r, netloc = sr_netloc r, path = url1, params = prm,
                    query = sr_query r, fragment = sr_fragment r\<rparr>))"

definition urlunsplit :: "string \<Rightarrow> string \<Rightarrow> string \<Rightarrow> string \<Rightarrow> string \<Rightarrow> string" where
  "urlunsplit sch nl url qry frag =
     (let url1 = (if nl \<noteq> [] \<or> (sch \<noteq> [] \<and> sch \<in> set uses_netloc) \<or> take 2 url = ''//''
                  then ''//'' @ nl @ (if url \<noteq> [] \<and> take 1 url \<noteq> ''/'' then ''/'' @ url else url)
                  else url);
          url2 = (if sch \<noteq> [] then sch @ '':'' @ url1 else url1);
          url3 = (if qry \<noteq> [] then url2 @ ''?'' @ qry else url2)
      in if frag \<noteq> [] then url3 @ ''#'' @ frag else url3)"

definition urlunparse :: "string \<Rightarrow> string \<Rightarrow> string \<Rightarrow> string \<Rightarrow> string \<Rightarrow> string \<Rightarrow> string" where
  "urlunparse sch nl url prm qry frag =
     urlunsplit sch nl (if prm \<noteq> [] then url @ '';'' @ prm else url) qry frag"

definition squeeze_middle :: "string list \<Rightarrow> string list" where
  \<comment> \<open>\<open>segments[1:-1] = filter(None, segments[1:-1])\<close>\<close>
  "squeeze_middle segs =
     take 1 segs @ filter (\<lambda>s. s \<noteq> []) (butlast (drop 1 segs)) @ drop (max 1 (length segs - 1)) segs"

fun resolve_segments :: "string list \<Rightarrow> string list \<Rightarrow> string list" where
  \<comment> \<open>the loop over \<open>segments\<close>; \<open>pop\<close> on an empty list is ignored\<close>
  "resolve_segments resolved [] = resolved"
| "resolve_segments resolved (seg # segs) =
     (if seg = ''..'' then resolve_segments (butlast resolved) segs
      else if seg = ''.'' then resolve_segments resolved segs
      else resolve_segments (resolved @ [seg]) segs)"

definition urljoin :: "(string \<Rightarrow> bool) \<Rightarrow> string \<Rightarrow> string \<Rightarrow> error + string" where
  "urljoin chk base url =
     (if base = [] then Inr url
      else if url = [] then Inr base
      else case urlparse chk base '''' of
        Inl e \<Rightarrow> Inl e
      | Inr b \<Rightarrow>
         (case urlparse chk url (scheme b) of
            Inl e \<Rightarrow> Inl e
          | Inr u \<Rightarrow>
             if scheme u \<noteq> scheme b \<or> scheme u \<notin> set uses_relative then Inr url
             else if scheme u \<in> set uses_netloc \<and> netloc u \<noteq> []
             then Inr (urlunparse (scheme u) (netloc u) (path u) (params u) (query u) (fragment u))
             else
              (let nl = (if scheme u \<in> set uses_netloc then netloc b else netloc u)
               in if path u = [] \<and> params u = []
                  then Inr (urlunparse (scheme u) nl (path b) (params b)
                              (if query u = [] then query b else query u) (fragment u))
                  else
                   (let base_parts0 = py_split CHR ''/'' (path b);
                        base_parts = (if last base_parts0 \<noteq> [] then butlast base_parts0 else base_parts0);
                        segments = (if take 1 (path u) = ''/'' then py_split CHR ''/'' (path u)
                                    else squeeze_middle (base_parts @ py_split CHR ''/'' (path u)));
                        resolved0 = resolve_segments [] segments;
                        resolved = (if last segments = ''.'' \<or> last segments = ''..''
                                    then resolved0 @ [''''] else resolved0);
                        joined = py_join ''/'' resolved
                    in Inr (urlunparse (scheme u) nl (if joined = [] then ''/'' else joined)
                              (params u) (query u) (fragment u))))))"

definition urldefrag :: "(string \<Rightarrow> bool) \<Rightarrow> string \<Rightarrow> error + string \<times> string" where
  "urldefrag chk url =
     (if CHR ''#'' \<in> set url then
        (case urlparse chk url '''' of
           Inl e \<Rightarrow> Inl e
         | Inr p \<Rightarrow> Inr (urlunparse (scheme p) (netloc p) (path p) (params p) (query p) '''', fragment p))
      else Inr (url, ''''))"

definition PBF_URL :: string where
  "PBF_URL = ''https://www.pbfcm.com/taxsale.html''"

section \<open>The rendered document, as the in-page script reads it\<close>

text \<open>
  The script of \<open>_extract_js\<close> runs in the browser. The document is modelled by what the
  script reads from it: each record field below is the value of one DOM call of the
  script. \<open>innerText\<close> is \<open>None\<close> where the property is undefined (an element that is
  not an HTML element); \<open>getAttribute\<close> is \<open>None\<close> for \<open>null\<close>.
\<close>

record element =
  innerText :: "string option"
  textContent :: string
  href_attr :: "string option"  \<comment> \<open>\<open>getAttribute('href')\<close>\<close>

record file_element =
  fe_self :: element
  fe_matches_a :: bool  \<comment> \<open>\<open>elFile.matches('a')\<close>\<close>
  fe_query_a :: "element option"  \<comment> \<open>\<open>elFile.querySelector('a')\<close>\<close>

record title_element =
  te_innerText :: "string option"
  te_textContent :: string
  te_files :: "file_element list"
    \<comment> \<open>\<open>root.querySelectorAll(".tax-list-file, .tax-list-file a")\<close>, where \<open>root\<close> is
        \<open>titleEl.closest(".tax-list-entity") || titleEl.parentElement || document\<close>\<close>
  te_links :: "file_element list"
    \<comment> \<open>\<open>root.querySelectorAll("a[href$='.pdf'], a[href*='sale'], a[href^='http'], a[href^='/']")\<close>\<close>

record section_element =
  se_innerText :: "string option"
  se_links :: "element list"
    \<comment> \<open>\<open>container.querySelectorAll("a[href]")\<close>, where \<open>container\<close> is
        \<open>s.closest("li,section,div,ul,ol") || s.parentElement || document\<close>\<close>

record document =
  entities :: "title_element list"  \<comment> \<open>\<open>document.querySelectorAll(".tax-list-entity-title")\<close>\<close>
  sections :: "section_element list"  \<comment> \<open>\<open>document.querySelectorAll("h1,h2,h3,strong,b,li")\<close>\<close>

record raw_row =
  tax_list_entity_title :: "string option"
  tax_list_file :: "string option"
  tax_list_file_href :: "string option"

definition truthy :: "string option \<Rightarrow> bool" where
  \<comment> \<open>a JavaScript or Python string-or-null value in a condition\<close>
  "truthy v = (case v of None \<Rightarrow> False | Some s \<Rightarrow> s \<noteq> [])"

definition or_empty :: "string option \<Rightarrow> string" where
  \<comment> \<open>\<open>v || ""\<close> in the script, \<open>v or ""\<close> in Python\<close>
  "or_empty v = (case v of None \<Rightarrow> [] | Some s \<Rightarrow> s)"

definition or_null :: "string \<Rightarrow> string option" where
  \<comment> \<open>\<open>s || null\<close> in the script, \<open>s or None\<close> in Python\<close>
  "or_null s = (if s = [] then None else Some s)"

definition file_anchor :: "file_element \<Rightarrow> element option" where
  \<comment> \<open>\<open>elFile.matches('a') ? elFile : elFile.querySelector('a')\<close>\<close>
  "file_anchor el = (if fe_matches_a el then Some (fe_self el) else fe_query_a el)"

definition file_text :: "file_element \<Rightarrow> string option" where
  \<comment> \<open>\<open>a ? a.innerText : elFile.innerText\<close>\<close>
  "file_text el = (case file_anchor el of Some a \<Rightarrow> innerText a | None \<Rightarrow> innerText (fe_self el))"

definition record_js :: "string \<Rightarrow> file_element option \<Rightarrow> raw_row list" where
  \<comment> \<open>\<open>record(title, elFile)\<close>: the rows it pushes on \<open>out\<close>\<close>
  "record_js title elFile =
     (case elFile of
        None \<Rightarrow> []
      | Some el \<Rightarrow>
          (let label = (if truthy (file_text el) then Some (js_trim (the (file_text el))) else None);
               href = (case file_anchor el of Some a \<Rightarrow> href_attr a | None \<Rightarrow> None)
           in [\<lparr>tax_list_entity_title = (if title \<noteq> [] then Some (js_trim title) else None),
                 tax_list_file = label,
                 tax_list_file_href = href\<rparr>]))"

definition title_text :: "title_element \<Rightarrow> string" where
  \<comment> \<open>\<open>titleEl.innerText || titleEl.textContent || ""\<close>\<close>
  "title_text t = (if truthy (te_innerText t) then the (te_innerText t) else te_textContent t)"

definition tier_a_title :: "title_element \<Rightarrow> raw_row list" where
  \<comment> \<open>the body of the loop over \<open>entities\<close>\<close>
  "tier_a_title t =
     (let title = title_text t
      in if 0 < length (te_files t)
         then concat (map (\<lambda>el. record_js title (Some el)) (te_files t))
         else concat (map (\<lambda>a. record_js title (Some a)) (te_links t)))"

definition tier_a :: "title_element list \<Rightarrow> raw_row list" where
  "tier_a ents = concat (map tier_a_title ents)"

definition heading_keywords :: "string list" where
  "heading_keywords = [''county'', ''pct'', ''sale'', ''isd'', ''sheriff'']"

definition keyword_test :: "string \<Rightarrow> bool" where
  \<comment> \<open>\<open>/county|pct|sale|isd|sheriff/i.test(txt)\<close>\<close>
  "keyword_test txt = list_ex (\<lambda>k. contains (map ascii_lower_char txt) k) heading_keywords"

definition anchor_text :: "element \<Rightarrow> string" where
  \<comment> \<open>\<open>(a.innerText || a.textContent || "").trim()\<close>\<close>
  "anchor_text a = js_trim (if truthy (innerText a) then the (innerText a) else textContent a)"

definition tier_b_link :: "string \<Rightarrow> element \<Rightarrow> raw_row list" where
  \<comment> \<open>the callback of \<open>links.forEach\<close>\<close>
  "tier_b_link txt a =
     (let label = anchor_text a; href = href_attr a
      in if \<not> truthy href then []
         else if startswith (the href) ''#'' then []
         else [\<lparr>tax_list_entity_title = Some txt,
                 tax_list_file = or_null label,
                 tax_list_file_href = href\<rparr>])"

definition tier_b_section :: "section_element \<Rightarrow> raw_row list" where
  \<comment> \<open>the body of the loop over \<open>sections\<close>; each \<open>continue\<close> gives no rows\<close>
  "tier_b_section s =
     (let txt = js_trim (or_empty (se_innerText s))
      in if txt = [] then []
         else if \<not> list_ex ascii_alpha txt then []
         else if \<not> keyword_test txt then []
         else concat (map (tier_b_link txt) (se_links s)))"

definition tier_b :: "section_element list \<Rightarrow> raw_row list" where
  "tier_b secs = concat (map tier_b_section secs)"

definition extract_script :: "document \<Rightarrow> raw_row list" where
  \<comment> \<open>the value of the script: \<open>out\<close>\<close>
  "extract_script doc =
     (let hasExplicit = (0 < length (entities doc))
      in if hasExplicit then tier_a (entities doc) else tier_b (sections doc))"

section \<open>\<open>_extract_js\<close>: absolute URLs and duplicate removal\<close>

type_synonym row_key = "string \<times> string \<times> string"

definition row_key :: "raw_row \<Rightarrow> row_key" where
  "row_key r =
     (or_empty (tax_list_entity_title r), or_empty (tax_list_file r), or_empty (tax_list_file_href r))"

definition absolutize :: "(string \<Rightarrow> bool) \<Rightarrow> raw_row \<Rightarrow> error + raw_row" where
  \<comment> \<open>the \<open>if href:\<close> block of the loop; a \<open>ValueError\<close> of the library leaves the function\<close>
  "absolutize chk r =
     (let href = tax_list_file_href r
      in if truthy href then
           (case urljoin chk PBF_URL (the href) of
              Inl e \<Rightarrow> Inl e
            | Inr absu \<Rightarrow>
                (case urldefrag chk absu of
                   Inl e \<Rightarrow> Inl e
                 | Inr (absu', _) \<Rightarrow> Inr (r\<lparr>tax_list_file_href := Some absu'\<rparr>)))
         else Inr r)"

fun clean_rows :: "(string \<Rightarrow> bool) \<Rightarrow> row_key set \<Rightarrow> raw_row list \<Rightarrow> raw_row list \<Rightarrow> error + raw_row list" where
  \<comment> \<open>the loop \<open>for r in rows\<close>, with its variables \<open>seen\<close> and \<open>cleaned\<close>\<close>
  "clean_rows chk seen cleaned [] = Inr cleaned"
| "clean_rows chk seen cleaned (r # rows) =
     (case absolutize chk r of
        Inl e \<Rightarrow> Inl e
      | Inr r' \<Rightarrow>
          (let key = row_key r'
           in if key \<in> seen then clean_rows chk seen cleaned rows
              else clean_rows chk (insert key seen) (cleaned @ [r']) rows))"

definition extract_js :: "(string \<Rightarrow> bool) \<Rightarrow> document \<Rightarrow> error + raw_row list" where
  \<comment> \<open>\<open>_extract_js\<close> on a page whose document is \<open>doc\<close>\<close>
  "extract_js chk doc = clean_rows chk {} [] (extract_script doc)"

section \<open>Normalisation\<close>

record norm_row =
  entity_title :: "string option"
  file_label :: "string option"
  file_url :: "string option"
  file_type :: "string option"

definition file_type_of :: "(string \<Rightarrow> bool) \<Rightarrow> string option \<Rightarrow> error + string option" where
  \<comment> \<open>\<open>_file_type\<close>\<close>
  "file_type_of chk url =
     (if \<not> truthy url then Inr None
      else case urlparse chk (the url) '''' of
        Inl e \<Rightarrow> Inl e
      | Inr p \<Rightarrow>
          (let pth = py_lower (path p)
           in if endswith pth ''.pdf'' then Inr (Some ''pdf'')
              else if endswith pth ''.doc'' \<or> endswith pth ''.docx'' then Inr (Some ''doc'')
              else if endswith pth ''.xls'' \<or> endswith pth ''.xlsx'' then Inr (Some ''xls'')
              else Inr None))"

definition normalize :: "(string \<Rightarrow> bool) \<Rightarrow> raw_row \<Rightarrow> error + norm_row" where
  \<comment> \<open>\<open>_normalize\<close>\<close>
  "normalize chk raw =
     (let entity = or_null (py_strip (or_empty (tax_list_entity_title raw)));
          label = or_null (py_strip (or_empty (tax_list_file raw)));
          href = (if truthy (tax_list_file_href raw) then tax_list_file_href raw else None)
      in case file_type_of chk href of
           Inl e \<Rightarrow> Inl e
         | Inr t \<Rightarrow> Inr \<lparr>entity_title = entity, file_label = label, file_url = href, file_type = t\<rparr>)"

fun normalize_all :: "(string \<Rightarrow> bool) \<Rightarrow> raw_row list \<Rightarrow> error + norm_row list" where
  \<comment> \<open>\<open>[self._normalize(r) for r in raw_rows]\<close>\<close>
  "normalize_all chk [] = Inr []"
| "normalize_all chk (r # rs) =
     (case normalize chk r of
        Inl e \<Rightarrow> Inl e
      | Inr n \<Rightarrow> (case normalize_all chk rs of Inl e \<Rightarrow> Inl e | Inr ns \<Rightarrow> Inr (n # ns)))"

section \<open>The scraper object and \<open>scrape\<close>\<close>

text \<open>
  The fields \<open>_pw\<close> and \<open>_browser\<close> hold a handle or \<open>None\<close>. What Playwright answers is
  the environment: each call gives a value or raises.
\<close>

record scraper =
  pw :: "nat option"
  browser :: "nat option"

record environment =
  playwright_start :: "error + nat"  \<comment> \<open>\<open>async_playwright().start()\<close>\<close>
  chromium_launch :: "error + nat"  \<comment> \<open>\<open>chromium.launch(...)\<close>\<close>
  browser_close :: "error option"  \<comment> \<open>\<open>_browser.close()\<close>: \<open>Some e\<close> when it raises\<close>
  playwright_stop :: "error option"  \<comment> \<open>\<open>_pw.stop()\<close>\<close>
  render :: "error + document"
    \<comment> \<open>\<open>new_context\<close>, the route, \<open>new_page\<close> and \<open>goto\<close>: the document the script sees\<close>
  context_close :: "error option"  \<comment> \<open>\<open>ctx.close()\<close>\<close>
  check_bracketed_host :: "string \<Rightarrow> bool"

definition start :: "environment \<Rightarrow> scraper \<Rightarrow> error option \<times> scraper" where
  \<comment> \<open>the exception raised, if any, and the object afterwards\<close>
  "start env s =
     (if browser s \<noteq> None then (None, s)
      else case playwright_start env of
        Inl e \<Rightarrow> (Some e, s)
      | Inr p \<Rightarrow>
          (let s1 = s\<lparr>pw := Some p\<rparr>
           in case chromium_launch env of
                Inl e \<Rightarrow> (Some e, s1)
              | Inr b \<Rightarrow> (None, s1\<lparr>browser := Some b\<rparr>)))"

definition stop :: "environment \<Rightarrow> scraper \<Rightarrow> error option \<times> scraper" where
  "stop env s =
     (case (if browser s \<noteq> None
            then (case browser_close env of Some e \<Rightarrow> Inl e | None \<Rightarrow> Inr (s\<lparr>browser := None\<rparr>))
            else Inr s) of
        Inl e \<Rightarrow> (Some e, s)
      | Inr s1 \<Rightarrow>
          if pw s1 \<noteq> None
          then (case playwright_stop env of Some e \<Rightarrow> (Some e, s1) | None \<Rightarrow> (None, s1\<lparr>pw := None\<rparr>))
          else (None, s1))"

record scrape_result =
  source_url :: string
  count :: nat
  raw :: "raw_row list"
  normalized :: "norm_row list"

definition scrape :: "environment \<Rightarrow> scraper \<Rightarrow> (error + scrape_result) \<times> scraper" where
  "scrape env s =
     (let (started, s1) = start env s; chk = check_bracketed_host env
      in case started of
           Some e \<Rightarrow> (Inl e, s1)
         | None \<Rightarrow>
            (if browser s1 = None then (Inl AssertionError, s1)
             else case render env of
               Inl e \<Rightarrow> (Inl e, s1)
             | Inr doc \<Rightarrow>
                (case extract_js chk doc of
                   Inl e \<Rightarrow> (Inl e, s1)
                 | Inr raw_rows \<Rightarrow>
                    (case normalize_all chk raw_rows of
                       Inl e \<Rightarrow> (Inl e, s1)
                     | Inr norm_rows \<Rightarrow>
                        (case context_close env of
                           Some e \<Rightarrow> (Inl e, s1)
                         | None \<Rightarrow>
                            (Inr \<lparr>source_url = PBF_URL, count = length raw_rows,
                                   raw = raw_rows, normalized = norm_rows\<rparr>, s1))))))"

section \<open>What the specification says, and example documents\<close>

fun absolutize_all :: "(string \<Rightarrow> bool) \<Rightarrow> raw_row list \<Rightarrow> error + raw_row list" where
  \<comment> \<open>the canonicalised input: every row after the \<open>if href:\<close> block, when none raises\<close>
  "absolutize_all chk [] = Inr []"
| "absolutize_all chk (r # rs) =
     (case absolutize chk r of
        Inl e \<Rightarrow> Inl e
      | Inr r' \<Rightarrow> (case absolutize_all chk rs of Inl e \<Rightarrow> Inl e | Inr rs' \<Rightarrow> Inr (r' # rs')))"

definition first_occurrences :: "raw_row list \<Rightarrow> raw_row list" where
  \<comment> \<open>the specification's words: keep, in the original order, the rows whose key no
      earlier row has\<close>
  "first_occurrences xs =
     map (\<lambda>i. xs ! i)
       (filter (\<lambda>i. list_all (\<lambda>j. row_key (xs ! j) \<noteq> row_key (xs ! i)) [0..<i]) [0..<length xs])"

definition no_check :: "string \<Rightarrow> bool" where
  \<comment> \<open>a host check that accepts nothing in brackets; the examples have no brackets\<close>
  "no_check h = False"

definition notice_anchor :: element where
  \<comment> \<open>\<open><a href="/docs/notice.pdf">Notice</a>\<close>\<close>
  "notice_anchor = \<lparr>innerText = Some ''Notice'', textContent = ''Notice'', href_attr = Some ''/docs/notice.pdf''\<rparr>"

definition notice_file :: file_element where
  "notice_file = \<lparr>fe_self = notice_anchor, fe_matches_a = True, fe_query_a = None\<rparr>"

definition county_section :: section_element where
  \<comment> \<open>a heading \<open>Smith County\<close> whose container holds the notice link\<close>
  "county_section = \<lparr>se_innerText = Some ''Smith County'', se_links = [notice_anchor]\<rparr>"

definition explicit_doc :: document where
  \<comment> \<open>one title element \<open>Smith County\<close> with one file anchor, and a heading that Tier B would match\<close>
  "explicit_doc =
     \<lparr>entities = [\<lparr>te_innerText = Some ''Smith County'', te_textContent = ''Smith County'',
                    te_files = [notice_file], te_links = []\<rparr>],
      sections = [county_section]\<rparr>"

definition bare_title_doc :: document where
  \<comment> \<open>one title element with no file and no link, and a heading that Tier B would match\<close>
  "bare_title_doc =
     \<lparr>entities = [\<lparr>te_innerText = Some ''Smith County'', te_textContent = ''Smith County'',
                    te_files = [], te_links = []\<rparr>],
      sections = [county_section]\<rparr>"

definition heading_doc :: document where
  \<comment> \<open>no title element, one matching heading\<close>
  "heading_doc = \<lparr>entities = [], sections = [county_section]\<rparr>"

definition notice_row :: raw_row where
  "notice_row =
     \<lparr>tax_list_entity_title = Some ''Smith County'', tax_list_file = Some ''Notice'',
      tax_list_file_href = Some ''/docs/notice.pdf''\<rparr>"

definition idle_scraper :: scraper where
  "idle_scraper = \<lparr>pw = None, browser = None\<rparr>"

definition running_scraper :: scraper where
  "running_scraper = \<lparr>pw = Some 1, browser = Some 2\<rparr>"

definition example_env :: "document \<Rightarrow> environment" where
  \<comment> \<open>every Playwright call succeeds and the page renders as \<open>doc\<close>\<close>
  "example_env doc =
     \<lparr>playwright_start = Inr 1, chromium_launch = Inr 2, browser_close = None,
      playwright_stop = None, render = Inr doc, context_close = None,
      check_bracketed_host = no_check\<rparr>"

fun keep_unseen :: "row_key set \<Rightarrow> raw_row list \<Rightarrow> raw_row list" where
  \<comment> \<open>the loop of \<open>clean_rows\<close> on rows that are already canonical\<close>
  "keep_unseen seen [] = []"
| "keep_unseen seen (r # rs) =
     (if row_key r \<in> seen then keep_unseen seen rs
      else r # keep_unseen (insert (row_key r) seen) rs)"

definition notice_url :: string where
  "notice_url = ''https://www.pbfcm.com/docs/notice.pdf''"

definition titled_row :: "string option \<Rightarrow> string \<Rightarrow> raw_row" where
  \<comment> \<open>a row for the notice link under the given title\<close>
  "titled_row t h = \<lparr>tax_list_entity_title = t, tax_list_file = Some ''Notice'', tax_list_file_href = Some h\<rparr>"

definition repeated_rows :: "raw_row list" where
  \<comment> \<open>the notice twice (once with a fragment), and the same link under a null and an empty title\<close>
  "repeated_rows =
     [titled_row (Some ''Smith County'') ''/docs/notice.pdf'',
      titled_row None ''/docs/notice.pdf'',
      titled_row (Some ''Smith County'') ''/docs/notice.pdf#page=2'',
      titled_row (Some '''') ''/docs/notice.pdf'']"

definition blank_anchor :: element where
  \<comment> \<open>\<open><a href="/docs/notice.pdf">&nbsp;</a>\<close>: the text is one no-break space\<close>
  "blank_anchor = \<lparr>innerText = Some [CHR 0xA0], textContent = [CHR 0xA0], href_attr = Some ''/docs/notice.pdf''\<rparr>"

definition blank_file :: file_element where
  "blank_file = \<lparr>fe_self = blank_anchor, fe_matches_a = True, fe_query_a = None\<rparr>"

definition blank_title_doc :: document where
  \<comment> \<open>a title element whose text is one no-break space, with the notice as its file\<close>
  "blank_title_doc =
     \<lparr>entities = [\<lparr>te_innerText = Some [CHR 0xA0], te_textContent = [CHR 0xA0],
                    te_files = [notice_file], te_links = []\<rparr>],
      sections = []\<rparr>"

section \<open>The browser lifecycle\<close>

lemma start_started: "browser s \<noteq> None \<Longrightarrow> start env s = (None, s)"
  by (simp add: start_def)

lemma stop_stopped: "browser s = None \<Longrightarrow> pw s = None \<Longrightarrow> stop env s = (None, s)"
  by (simp add: stop_def)

lemma start_ok_browser: "start env s = (None, s') \<Longrightarrow> browser s' \<noteq> None"
  by (cases "playwright_start env"; cases "chromium_launch env")
     (auto simp: start_def split: if_splits)

lemma stop_ok_stopped: "stop env s = (None, s') \<Longrightarrow> browser s' = None \<and> pw s' = None"
  by (cases "browser_close env"; cases "playwright_stop env")
     (auto simp: stop_def split: if_splits)

text \<open>
  Claim C8. \<open>start()\<close> on a scraper whose browser is started returns without raising and
  leaves the object as it is; \<open>stop()\<close> on a scraper whose browser and Playwright handle are
  both \<open>None\<close> does the same. So a second \<open>start()\<close> after one that succeeded, and a second
  \<open>stop()\<close> after one that succeeded, change nothing, whatever Playwright would answer.
\<close>

theorem start_stop_idempotent:
  "(browser s \<noteq> None \<longrightarrow> start env s = (None, s)) \<and>
   (browser s = None \<and> pw s = None \<longrightarrow> stop env s = (None, s)) \<and>
   (start env s = (None, s') \<longrightarrow> start env' s' = (None, s')) \<and>
   (stop env s = (None, s') \<longrightarrow> stop env' s' = (None, s'))"
  using start_started stop_stopped start_ok_browser stop_ok_stopped by blast

theorem start_stop_idempotent_witness:
  "browser running_scraper \<noteq> None \<and>
   start (example_env heading_doc) running_scraper = (None, running_scraper) \<and>
   browser idle_scraper = None \<and> pw idle_scraper = None \<and>
   stop (example_env heading_doc) idle_scraper = (None, idle_scraper) \<and>
   start (example_env heading_doc) idle_scraper = (None, running_scraper) \<and>
   start (example_env explicit_doc) running_scraper = (None, running_scraper) \<and>
   stop (example_env heading_doc) running_scraper = (None, idle_scraper) \<and>
   stop (example_env explicit_doc) idle_scraper = (None, idle_scraper)"
  using start_stop_idempotent [of running_scraper "example_env heading_doc" idle_scraper
      "example_env explicit_doc"]
    start_stop_idempotent [of idle_scraper "example_env heading_doc" running_scraper
      "example_env explicit_doc"]
  by (simp add: running_scraper_def idle_scraper_def example_env_def start_def stop_def)

section \<open>The choice between the two extraction paths\<close>

text \<open>
  Claim C1. The path is chosen once for the document. With at least one element of class
  \<open>tax-list-entity-title\<close> the rows of the script are those of the explicit-markup path,
  and neither they nor the rows \<open>_extract_js\<close> returns depend on the headings that the
  heuristic path would scan; with no such element the rows are those of the heuristic path.
\<close>

theorem tier_chosen_once:
  "(entities doc \<noteq> [] \<longrightarrow>
      extract_script doc = tier_a (entities doc) \<and>
      extract_script (doc\<lparr>sections := secs\<rparr>) = extract_script doc \<and>
      extract_js chk (doc\<lparr>sections := secs\<rparr>) = extract_js chk doc) \<and>
   (entities doc = [] \<longrightarrow> extract_script doc = tier_b (sections doc))"
  by (simp add: extract_script_def extract_js_def)

lemma tier_b_county_section: "tier_b [county_section] = [notice_row]"
  by code_simp

text \<open>
  The document of the witness has one title element with no file at all and a heading that
  the heuristic path matches: the script returns nothing, although the heuristic path alone
  would return a row.
\<close>

theorem tier_chosen_once_witness:
  "entities bare_title_doc \<noteq> [] \<and>
   extract_script bare_title_doc = [] \<and>
   tier_b (sections bare_title_doc) = [notice_row] \<and>
   extract_script (bare_title_doc\<lparr>sections := []\<rparr>) = extract_script bare_title_doc \<and>
   extract_js no_check (bare_title_doc\<lparr>sections := []\<rparr>) = extract_js no_check bare_title_doc \<and>
   entities heading_doc = [] \<and>
   extract_script heading_doc = [notice_row]"
  using tier_chosen_once [of bare_title_doc "[]" no_check] tier_chosen_once [of heading_doc "[]" no_check]
    tier_b_county_section
  by (simp add: bare_title_doc_def heading_doc_def tier_a_def tier_a_title_def)

section \<open>The rows of the explicit-markup path\<close>

text \<open>
  Claim C6 says that a title whose text is empty after trimming gives a null title. The
  script tests the text before it trims it (\<open>title ? title.trim() : null\<close>): a title that
  is one space, or one no-break space, is not empty, and its row has the empty string.
\<close>

theorem whitespace_title_counterexample:
  "js_trim '' '' = [] \<and>
   map tax_list_entity_title (record_js '' '' (Some notice_file)) = [Some []] \<and>
   js_trim [CHR 0xA0] = [] \<and>
   map tax_list_entity_title (extract_script blank_title_doc) = [Some []]"
  by code_simp

text \<open>
  Claim C6, amended. \<open>record\<close> pushes one row. Its title is null exactly when the title text
  is the empty string, and the trimmed text otherwise, so a non-empty title of white space
  gives the empty string. Its label follows the same rule on the text of the inner anchor
  (of the element itself without one): null exactly when that text is undefined or the empty
  string, the trimmed text otherwise, which may be the empty string.
\<close>

theorem record_null_convention:
  "\<exists>row. record_js title (Some el) = [row] \<and>
     (tax_list_entity_title row = None \<longleftrightarrow> title = []) \<and>
     (title \<noteq> [] \<longrightarrow> tax_list_entity_title row = Some (js_trim title)) \<and>
     (tax_list_file row = None \<longleftrightarrow> \<not> truthy (file_text el)) \<and>
     (\<forall>t. file_text el = Some t \<and> t \<noteq> [] \<longrightarrow> tax_list_file row = Some (js_trim t))"
  by (auto simp: record_js_def Let_def truthy_def split: option.splits)

lemma blank_file_row:
  "record_js [CHR 0xA0] (Some blank_file) =
     [\<lparr>tax_list_entity_title = Some [], tax_list_file = Some [],
       tax_list_file_href = Some ''/docs/notice.pdf''\<rparr>]"
  by code_simp

lemma blank_file_text: "file_text blank_file = Some [CHR 0xA0] \<and> js_trim [CHR 0xA0] = []"
  by code_simp

theorem record_null_convention_witness:
  "record_js [CHR 0xA0] (Some blank_file) =
     [\<lparr>tax_list_entity_title = Some [], tax_list_file = Some [],
       tax_list_file_href = Some ''/docs/notice.pdf''\<rparr>] \<and>
   [CHR 0xA0] \<noteq> [] \<and> file_text blank_file = Some [CHR 0xA0] \<and> js_trim [CHR 0xA0] = []"
  using record_null_convention [of "[CHR 0xA0]" blank_file] blank_file_row blank_file_text
  by simp

section \<open>The rows of the heuristic path\<close>





section \<open>Duplicate removal\<close>

lemma clean_rows_eq:
  "clean_rows chk seen cleaned rows =
     (case absolutize_all chk rows of
        Inl e \<Rightarrow> Inl e
      | Inr canon \<Rightarrow> Inr (cleaned @ keep_unseen seen canon))"
  by (induction rows arbitrary: seen cleaned) (auto simp: Let_def split: sum.splits)

lemma list_all_upt: "list_all P [0..<n] = (\<forall>j<n. P j)"
  by (auto simp: list_all_iff)

lemma keep_unseen_index:
  "keep_unseen seen xs =
     map (\<lambda>i. xs ! i)
       (filter (\<lambda>i. row_key (xs ! i) \<notin> seen \<and> (\<forall>j<i. row_key (xs ! j) \<noteq> row_key (xs ! i)))
          [0..<length xs])"
proof (induction xs arbitrary: seen)
  case Nil
  show ?case by simp
next
  case (Cons x xs)
  have upt: "[0..<length (x # xs)] = 0 # map Suc [0..<length xs]"
    by (simp add: upt_conv_Cons map_Suc_upt del: upt_Suc)
  show ?case
  proof (cases "row_key x \<in> seen")
    case True
    have "filter (\<lambda>i. row_key (xs ! i) \<notin> seen \<and> (\<forall>j<i. row_key (xs ! j) \<noteq> row_key (xs ! i)))
            [0..<length xs] =
          filter (\<lambda>i. row_key (xs ! i) \<notin> seen \<and> row_key x \<noteq> row_key (xs ! i) \<and>
                      (\<forall>j<i. row_key (xs ! j) \<noteq> row_key (xs ! i))) [0..<length xs]"
      by (rule filter_cong) (use True in auto)
    with True show ?thesis
      unfolding upt by (simp add: Cons.IH filter_map comp_def All_less_Suc2)
  next
    case False
    have "filter (\<lambda>i. row_key (xs ! i) \<notin> insert (row_key x) seen \<and>
                      (\<forall>j<i. row_key (xs ! j) \<noteq> row_key (xs ! i))) [0..<length xs] =
          filter (\<lambda>i. row_key (xs ! i) \<notin> seen \<and> row_key x \<noteq> row_key (xs ! i) \<and>
                      (\<forall>j<i. row_key (xs ! j) \<noteq> row_key (xs ! i))) [0..<length xs]"
      by (rule filter_cong) auto
    with False show ?thesis
      unfolding upt by (simp add: Cons.IH filter_map comp_def All_less_Suc2)
  qed
qed

lemma keep_unseen_first: "keep_unseen {} xs = first_occurrences xs"
  by (simp add: keep_unseen_index first_occurrences_def list_all_upt)

lemma keep_unseen_keys: "row_key ` set (keep_unseen seen xs) \<inter> seen = {}"
  by (induction xs arbitrary: seen) auto

lemma keep_unseen_distinct: "distinct (map row_key (keep_unseen seen xs))"
proof (induction xs arbitrary: seen)
  case Nil
  show ?case by simp
next
  case (Cons x xs)
  show ?case
    using keep_unseen_keys [of "insert (row_key x) seen" xs] by (auto simp: Cons.IH)
qed

lemma keep_unseen_member:
  "y \<in> set (keep_unseen seen xs) \<longleftrightarrow>
     row_key y \<notin> seen \<and> find (\<lambda>z. row_key z = row_key y) xs = Some y"
  by (induction xs arbitrary: seen) auto

text \<open>
  Claim C2. When no URL resolution raises, \<open>_extract_js\<close> returns exactly the rows of the
  canonicalised input whose key (title or \<open>""\<close>, label or \<open>""\<close>, href or \<open>""\<close>) no earlier
  row has, in the input's order; when one raises, so does the function. No two returned rows
  have the same key.
\<close>

theorem dedupe_first_seen:
  "clean_rows chk {} [] rows =
     (case absolutize_all chk rows of
        Inl e \<Rightarrow> Inl e
      | Inr canon \<Rightarrow> Inr (first_occurrences canon)) \<and>
   (\<forall>res. clean_rows chk {} [] rows = Inr res \<longrightarrow> distinct (map row_key res))"
proof
  show "clean_rows chk {} [] rows =
     (case absolutize_all chk rows of
        Inl e \<Rightarrow> Inl e
      | Inr canon \<Rightarrow> Inr (first_occurrences canon))"
    by (simp add: clean_rows_eq keep_unseen_first split: sum.splits)
  show "\<forall>res. clean_rows chk {} [] rows = Inr res \<longrightarrow> distinct (map row_key res)"
  proof (intro allI impI)
    fix res
    assume "clean_rows chk {} [] rows = Inr res"
    then obtain canon where "res = keep_unseen {} canon"
      by (auto simp: clean_rows_eq split: sum.splits)
    then show "distinct (map row_key res)"
      by (simp add: keep_unseen_distinct)
  qed
qed

lemma repeated_rows_canonical:
  "absolutize_all no_check repeated_rows =
     Inr [titled_row (Some ''Smith County'') notice_url, titled_row None notice_url,
          titled_row (Some ''Smith County'') notice_url, titled_row (Some []) notice_url]"
  by code_simp

lemma repeated_rows_first:
  "first_occurrences
     [titled_row (Some ''Smith County'') notice_url, titled_row None notice_url,
      titled_row (Some ''Smith County'') notice_url, titled_row (Some []) notice_url] =
   [titled_row (Some ''Smith County'') notice_url, titled_row None notice_url]"
  by code_simp

lemma repeated_rows_keys:
  "distinct (map row_key [titled_row (Some ''Smith County'') notice_url, titled_row None notice_url])"
  by code_simp

theorem dedupe_first_seen_witness:
  "clean_rows no_check {} [] repeated_rows =
     Inr [titled_row (Some ''Smith County'') notice_url, titled_row None notice_url] \<and>
   distinct (map row_key [titled_row (Some ''Smith County'') notice_url, titled_row None notice_url])"
  using dedupe_first_seen [of no_check repeated_rows] repeated_rows_keys
  by (simp add: repeated_rows_canonical repeated_rows_first)

text \<open>
  Claim C7. A null field and an empty-string field give the same key component. Of all the
  canonicalised rows that share a key, the returned sequence holds the earliest one and no
  other: a row that differs from an earlier one only by null against the empty string is
  dropped.
\<close>

theorem null_and_empty_collapse:
  "row_key (r\<lparr>tax_list_entity_title := None\<rparr>) = row_key (r\<lparr>tax_list_entity_title := Some []\<rparr>) \<and>
   row_key (r\<lparr>tax_list_file := None\<rparr>) = row_key (r\<lparr>tax_list_file := Some []\<rparr>) \<and>
   row_key (r\<lparr>tax_list_file_href := None\<rparr>) = row_key (r\<lparr>tax_list_file_href := Some []\<rparr>) \<and>
   (clean_rows chk {} [] rows = Inr res \<longrightarrow>
      (\<exists>canon. absolutize_all chk rows = Inr canon \<and>
         (\<forall>x\<in>set canon. \<exists>y. find (\<lambda>z. row_key z = row_key x) canon = Some y \<and> y \<in> set res \<and>
              (\<forall>z\<in>set res. row_key z = row_key x \<longrightarrow> z = y))))"
proof (intro conjI impI)
  assume res: "clean_rows chk {} [] rows = Inr res"
  then obtain canon where canon: "absolutize_all chk rows = Inr canon"
    and keep: "res = keep_unseen {} canon"
    by (auto simp: clean_rows_eq split: sum.splits)
  have "\<exists>y. find (\<lambda>z. row_key z = row_key x) canon = Some y \<and> y \<in> set res \<and>
          (\<forall>z\<in>set res. row_key z = row_key x \<longrightarrow> z = y)" if x: "x \<in> set canon" for x
  proof -
    from x obtain y where y: "find (\<lambda>z. row_key z = row_key x) canon = Some y"
      by (cases "find (\<lambda>z. row_key z = row_key x) canon") (auto simp: find_None_iff)
    then have ky: "row_key y = row_key x"
      by (auto simp: find_Some_iff)
    with y have "y \<in> set res"
      by (simp add: keep keep_unseen_member)
    moreover have "z = y" if "z \<in> set res" "row_key z = row_key x" for z
      using that y by (simp add: keep keep_unseen_member)
    ultimately show ?thesis using y by blast
  qed
  with canon show "\<exists>canon. absolutize_all chk rows = Inr canon \<and>
         (\<forall>x\<in>set canon. \<exists>y. find (\<lambda>z. row_key z = row_key x) canon = Some y \<and> y \<in> set res \<and>
              (\<forall>z\<in>set res. row_key z = row_key x \<longrightarrow> z = y))"
    by blast
qed (simp_all add: row_key_def or_empty_def)

lemma null_then_empty_rows:
  "clean_rows no_check {} [] [titled_row None notice_url, titled_row (Some []) notice_url] =
     Inr [titled_row None notice_url]"
  by code_simp

lemma null_then_empty_canonical:
  "absolutize_all no_check [titled_row None notice_url, titled_row (Some []) notice_url] =
     Inr [titled_row None notice_url, titled_row (Some []) notice_url]"
  by code_simp

text \<open>
  In the witness the null-title row comes first and the empty-title row is dropped.
\<close>

theorem null_and_empty_collapse_witness:
  "clean_rows no_check {} [] [titled_row None notice_url, titled_row (Some []) notice_url] =
     Inr [titled_row None notice_url] \<and>
   row_key (titled_row None notice_url) = row_key (titled_row (Some []) notice_url) \<and>
   find (\<lambda>z. row_key z = row_key (titled_row (Some []) notice_url))
     [titled_row None notice_url, titled_row (Some []) notice_url] = Some (titled_row None notice_url) \<and>
   titled_row (Some []) notice_url \<notin> set [titled_row None notice_url]"
proof -
  have same_key: "row_key (titled_row None notice_url) = row_key (titled_row (Some []) notice_url)"
    by (simp add: titled_row_def row_key_def or_empty_def)
  have earliest: "find (\<lambda>z. row_key z = row_key (titled_row (Some []) notice_url))
     [titled_row None notice_url, titled_row (Some []) notice_url] = Some (titled_row None notice_url)"
    by (simp add: same_key)
  have dropped: "titled_row (Some []) notice_url \<notin> set [titled_row None notice_url]"
    by (simp add: titled_row_def)
  from null_and_empty_collapse [of "titled_row None notice_url" no_check
      "[titled_row None notice_url, titled_row (Some []) notice_url]" "[titled_row None notice_url]"]
    null_then_empty_rows null_then_empty_canonical same_key earliest dropped
  show ?thesis by blast
qed

section \<open>Normalisation and the scrape result\<close>



lemma scrape_result:
  "fst (scrape env s) = Inr res \<Longrightarrow>
     source_url res = PBF_URL \<and> count res = length (raw res) \<and>
     normalize_all (check_bracketed_host env) (raw res) = Inr (normalized res)"
  by (auto simp: scrape_def Let_def split: prod.splits option.splits sum.splits if_splits)




text \<open>
  Claim C9. For the normaliser an empty-string href is an absent href: the normalised row is
  the one of the same raw row with a null href, its \<open>file_url\<close> and \<open>file_type\<close> are null, and
  the classifier answers null on the empty string as on null.
\<close>

theorem empty_href_like_absent:
  "normalize chk (r\<lparr>tax_list_file_href := Some []\<rparr>) = normalize chk (r\<lparr>tax_list_file_href := None\<rparr>) \<and>
   (\<exists>n. normalize chk (r\<lparr>tax_list_file_href := Some []\<rparr>) = Inr n \<and> file_url n = None \<and> file_type n = None) \<and>
   file_type_of chk (Some []) = Inr None \<and> file_type_of chk None = Inr None"
  by (simp add: normalize_def file_type_of_def truthy_def)

theorem empty_href_like_absent_witness:
  "normalize no_check (notice_row\<lparr>tax_list_file_href := Some []\<rparr>) =
     Inr \<lparr>entity_title = Some ''Smith County'', file_label = Some ''Notice'',
          file_url = None, file_type = None\<rparr> \<and>
   normalize no_check (notice_row\<lparr>tax_list_file_href := None\<rparr>) =
     Inr \<lparr>entity_title = Some ''Smith County'', file_label = Some ''Notice'',
          file_url = None, file_type = None\<rparr>"
proof -
  have "normalize no_check (notice_row\<lparr>tax_list_file_href := None\<rparr>) =
     Inr \<lparr>entity_title = Some ''Smith County'', file_label = Some ''Notice'',
          file_url = None, file_type = None\<rparr>"
    by code_simp
  with empty_href_like_absent [of no_check notice_row] show ?thesis by simp
qed

end
